theory Spec2Isabelle
  imports Complex_Main "HOL-Library.Sublist"
begin

section \<open>Python values used by the engine\<close>

text \<open>
  A Python \<^verbatim>\<open>str\<close> is a sequence of Unicode code points, and \<^verbatim>\<open>len\<close> counts code
  points; the Hindi tokens of the classifier lie far outside one byte. A string is
  therefore a list of code points. ASCII text is written \<open>str ''abc''\<close>.
  Python floats are idealised as exact rationals.
\<close>

type_synonym pystr = "nat list"

abbreviation (input) str :: "string \<Rightarrow> pystr" where
  "str s \<equiv> map of_char s"

section \<open>jarvis\_reasoning.py: performance metrics\<close>

text \<open>
  \<^verbatim>\<open>PerformanceMetrics\<close>: the counters start at 0 and are only ever incremented, so they
  are natural numbers.
\<close>

record PerformanceMetrics =
  total_queries :: nat
  successful_queries :: nat
  orchestrator_queries :: nat
  langchain_queries :: nat
  average_response_time :: rat
  total_response_time :: rat
  error_count :: nat
  last_error :: "pystr option"

text \<open>The dataclass defaults: what \<^verbatim>\<open>PerformanceMetrics()\<close> builds.\<close>

definition metrics_init :: PerformanceMetrics where
  "metrics_init =
     \<lparr>total_queries = 0, successful_queries = 0, orchestrator_queries = 0,
      langchain_queries = 0, average_response_time = 0, total_response_time = 0,
      error_count = 0, last_error = None\<rparr>"

text \<open>
  \<^verbatim>\<open>update_success\<close>, statement by statement. The division cannot fail: the divisor
  has just been incremented.
\<close>

definition update_success :: "rat \<Rightarrow> pystr \<Rightarrow> PerformanceMetrics \<Rightarrow> PerformanceMetrics" where
  "update_success response_time method m =
     (let m1 = m\<lparr>total_queries := total_queries m + 1\<rparr>;
          m2 = m1\<lparr>successful_queries := successful_queries m1 + 1\<rparr>;
          m3 = m2\<lparr>total_response_time := total_response_time m2 + response_time\<rparr>;
          m4 = m3\<lparr>average_response_time :=
                      total_response_time m3 / of_nat (total_queries m3)\<rparr>
      in if method = str ''orchestrator''
         then m4\<lparr>orchestrator_queries := orchestrator_queries m4 + 1\<rparr>
         else m4\<lparr>langchain_queries := langchain_queries m4 + 1\<rparr>)"

definition update_error :: "pystr \<Rightarrow> PerformanceMetrics \<Rightarrow> PerformanceMetrics" where
  "update_error error_msg m =
     m\<lparr>total_queries := total_queries m + 1,
       error_count := error_count m + 1,
       last_error := Some error_msg\<rparr>"

text \<open>\<^verbatim>\<open>reset_performance_metrics\<close> rebinds the global to a fresh object.\<close>

definition reset_performance_metrics :: "PerformanceMetrics \<Rightarrow> PerformanceMetrics" where
  "reset_performance_metrics m = metrics_init"

text \<open>The three operations that touch the global metrics, and a run of them.\<close>

datatype metrics_op = UpdateSuccess rat pystr | UpdateError pystr | Reset

fun apply_metrics_op :: "PerformanceMetrics \<Rightarrow> metrics_op \<Rightarrow> PerformanceMetrics" where
  "apply_metrics_op m (UpdateSuccess t method) = update_success t method m"
| "apply_metrics_op m (UpdateError e) = update_error e m"
| "apply_metrics_op m Reset = reset_performance_metrics m"

definition run_metrics_ops :: "metrics_op list \<Rightarrow> PerformanceMetrics" where
  "run_metrics_ops ops = foldl apply_metrics_op metrics_init ops"

definition metrics_invariant :: "PerformanceMetrics \<Rightarrow> bool" where
  "metrics_invariant m \<longleftrightarrow>
     total_queries m = successful_queries m + error_count m \<and>
     successful_queries m = orchestrator_queries m + langchain_queries m"

section \<open>jarvis\_reasoning.py: configuration, errors, validation\<close>

text \<open>
  \<^verbatim>\<open>str.strip()\<close> removes the characters for which \<^verbatim>\<open>str.isspace\<close> holds from both ends;
  \<open>is_space\<close> lists those code points.
\<close>

definition is_space :: "nat \<Rightarrow> bool" where
  "is_space c \<longleftrightarrow>
     (9 \<le> c \<and> c \<le> 13) \<or> (28 \<le> c \<and> c \<le> 32) \<or> c = 133 \<or> c = 160 \<or> c = 5760 \<or>
     (8192 \<le> c \<and> c \<le> 8202) \<or> c = 8232 \<or> c = 8233 \<or> c = 8239 \<or> c = 8287 \<or>
     c = 12288"

definition strip :: "pystr \<Rightarrow> pystr" where
  "strip s = rev (dropWhile is_space (rev (dropWhile is_space s)))"

text \<open>Decimal text of an integer, for the f-strings that print one.\<close>

fun str_nat :: "nat \<Rightarrow> pystr" where
  "str_nat n = (if n < 10 then [48 + n] else str_nat (n div 10) @ [48 + n mod 10])"

declare str_nat.simps [simp del]

definition str_int :: "int \<Rightarrow> pystr" where
  "str_int i = (if i < 0 then 45 # str_nat (nat (- i)) else str_nat (nat i))"

text \<open>\<^verbatim>\<open>JarvisConfig\<close> and its defaults.\<close>

record JarvisConfig =
  model_name :: pystr
  max_retries :: int
  timeout_seconds :: rat
  orchestrator_threshold :: int
  verbose_mode :: bool
  cache_size :: int
  min_query_length :: int
  max_query_length :: int
  enable_fallback :: bool
  log_performance :: bool

definition config_default :: JarvisConfig where
  "config_default =
     \<lparr>model_name = str ''gemini-2.0-flash'', max_retries = 3, timeout_seconds = 30,
      orchestrator_threshold = 10, verbose_mode = True, cache_size = 128,
      min_query_length = 1, max_query_length = 1000, enable_fallback = True,
      log_performance = True\<rparr>"

text \<open>
  The instances of \<^verbatim>\<open>Exception\<close> the module handles: its own \<^verbatim>\<open>JarvisError\<close> (message,
  error code, wrapped original), \<^verbatim>\<open>asyncio.TimeoutError\<close>, and any other exception with
  its \<^verbatim>\<open>str()\<close> text. \<open>exn_str\<close> is \<^verbatim>\<open>str(e)\<close>.
\<close>

datatype exn =
    JarvisError pystr pystr "exn option"
  | TimeoutError
  | OtherError pystr

fun exn_str :: "exn \<Rightarrow> pystr" where
  "exn_str (JarvisError msg code orig) = msg"
| "exn_str TimeoutError = []"
| "exn_str (OtherError msg) = msg"

text \<open>
  A Python value where the code tests truthiness or the type: a string, a falsy
  non-string (\<^verbatim>\<open>None\<close>, \<^verbatim>\<open>0\<close>, an empty container), or a truthy non-string of the named
  type.
\<close>

datatype pyval = PyStr pystr | PyFalsy | PyOther pystr

text \<open>The \<^verbatim>\<open>AttributeError\<close> of calling \<^verbatim>\<open>.strip()\<close> on a value of type \<open>ty\<close> that has none.\<close>

definition attribute_error :: "pystr \<Rightarrow> exn" where
  "attribute_error ty =
     OtherError ([39] @ ty @ [39] @ str '' object has no attribute '' @ [39] @ str ''strip'' @ [39])"

definition validate_query :: "JarvisConfig \<Rightarrow> pyval \<Rightarrow> exn + unit" where
  "validate_query cfg query =
     (case query of
        PyStr q \<Rightarrow>
          if q = [] then
            Inl (JarvisError (str ''Query must be a non-empty string'') (str ''INVALID_QUERY'') None)
          else if int (length (strip q)) < min_query_length cfg then
            Inl (JarvisError
                  (str ''Query too short (minimum '' @ str_int (min_query_length cfg) @
                   str '' characters)'')
                  (str ''QUERY_TOO_SHORT'') None)
          else if int (length (strip q)) > max_query_length cfg then
            Inl (JarvisError
                  (str ''Query too long (maximum '' @ str_int (max_query_length cfg) @
                   str '' characters)'')
                  (str ''QUERY_TOO_LONG'') None)
          else Inr ()
      | _ \<Rightarrow>
          Inl (JarvisError (str ''Query must be a non-empty string'') (str ''INVALID_QUERY'') None))"

section \<open>jarvis\_reasoning.py: retry with exponential backoff\<close>

text \<open>
  The effects of the retry loop: how often the operation has been awaited and which
  delays were passed to \<^verbatim>\<open>asyncio.sleep\<close>, in order. The operation is given by what its
  successive awaits yield: \<open>func i\<close> is the outcome of the \<open>i\<close>-th await since the
  start of the process, an exception (\<open>Inl\<close>) or a result.
\<close>

record rstate =
  calls :: nat
  slept :: "rat list"

fun retry_loop ::
  "(nat \<Rightarrow> exn + 'r) \<Rightarrow> int \<Rightarrow> rat \<Rightarrow> int list \<Rightarrow> exn option \<Rightarrow> 'z rstate_scheme
     \<Rightarrow> (exn + 'r) \<times> 'z rstate_scheme" where
  "retry_loop func max_retries' base_delay [] last_exception s =
     (Inl (JarvisError
            (str ''Operation failed after '' @ str_int (max_retries' + 1) @ str '' attempts'')
            (str ''RETRY_EXHAUSTED'') last_exception), s)"
| "retry_loop func max_retries' base_delay (attempt # rest) last_exception s =
     (let s1 = s\<lparr>calls := calls s + 1\<rparr> in
      case func (calls s) of
        Inr r \<Rightarrow> (Inr r, s1)
      | Inl e \<Rightarrow>
          if attempt < max_retries' then
            retry_loop func max_retries' base_delay rest (Some e)
              (s1\<lparr>slept := slept s1 @ [base_delay * 2 ^ nat attempt]\<rparr>)
          else retry_loop func max_retries' base_delay rest (Some e) s1)"

text \<open>\<^verbatim>\<open>range(max_retries' + 1)\<close> is \<open>[0..max_retries']\<close>, empty for a negative bound.\<close>

definition retry_with_backoff ::
  "(nat \<Rightarrow> exn + 'r) \<Rightarrow> int \<Rightarrow> rat \<Rightarrow> 'z rstate_scheme \<Rightarrow> (exn + 'r) \<times> 'z rstate_scheme" where
  "retry_with_backoff func max_retries' base_delay s =
     retry_loop func max_retries' base_delay [0..max_retries'] None s"

section \<open>jarvis\_reasoning.py: the dispatcher \<^verbatim>\<open>thinking_capability\<close>\<close>

text \<open>
  What the dispatcher receives from outside, as inputs of the model:
  \<^item> \<open>smart_tool_execution q i\<close>: what the \<open>i\<close>-th await of the orchestrator yields for
    the query \<open>q\<close>;
  \<^item> \<open>build_agent\<close>: what the body of \<^verbatim>\<open>_create_langchain_agent\<close> yields (the model, the
    prompt pulled from the hub, the executor);
  \<^item> \<open>ainvoke a q\<close>: how long the agent's call takes and what it then yields;
  \<^item> \<open>float_str\<close>: Python's text of a float inside an f-string;
  \<^item> the readings of \<^verbatim>\<open>time.time()\<close> a call makes: at its start, in
    \<^verbatim>\<open>get_cached_agent\<close>, in \<^verbatim>\<open>cache_agent\<close>, and when it computes \<^verbatim>\<open>execution_time\<close>.
\<close>

datatype agent_result = WithOutput pyval | Plain pystr

record 'a env =
  smart_tool_execution :: "pystr \<Rightarrow> nat \<Rightarrow> exn + pystr"
  build_agent :: "exn + 'a"
  ainvoke :: "'a \<Rightarrow> pystr \<Rightarrow> rat \<times> (exn + agent_result)"
  float_str :: "rat \<Rightarrow> pystr"
  start_time :: rat
  cache_check_time :: rat
  cache_store_time :: rat
  end_time :: rat

text \<open>The module's globals, on top of the effects of the retry loop.\<close>

record 'a dstate = rstate +
  metrics :: PerformanceMetrics
  cached_agent :: "'a option"
  last_cache_time :: rat

text \<open>
  The dictionary \<^verbatim>\<open>thinking_capability\<close> returns; an absent key is \<open>None\<close>, and
  \<open>method_used\<close> is its key \<^verbatim>\<open>"method"\<close>.
\<close>

record dispatch_result =
  success :: bool
  response :: "pystr option"
  method_used :: "pystr option"
  error :: "pystr option"
  error_code :: "pystr option"
  execution_time :: rat

definition CACHE_TIMEOUT :: rat where
  "CACHE_TIMEOUT = 300"

definition get_cached_agent :: "'a env \<Rightarrow> 'a dstate \<Rightarrow> 'a option" where
  "get_cached_agent e s =
     (if cached_agent s \<noteq> None \<and> cache_check_time e - last_cache_time s < CACHE_TIMEOUT
      then cached_agent s else None)"

definition cache_agent :: "'a \<Rightarrow> 'a env \<Rightarrow> 'a dstate \<Rightarrow> 'a dstate" where
  "cache_agent agent e s = s\<lparr>cached_agent := Some agent, last_cache_time := cache_store_time e\<rparr>"

definition create_langchain_agent :: "'a env \<Rightarrow> exn + 'a" where
  "create_langchain_agent e =
     (case build_agent e of
        Inr executor \<Rightarrow> Inr executor
      | Inl x \<Rightarrow>
          Inl (JarvisError (str ''Failed to create LangChain agent: '' @ exn_str x)
                 (str ''AGENT_CREATION_FAILED'') (Some x)))"

text \<open>
  \<^verbatim>\<open>asyncio.wait_for(call, timeout)\<close>: a call that needs longer than the timeout is
  cancelled and \<^verbatim>\<open>TimeoutError\<close> is raised.
\<close>

definition wait_for :: "rat \<times> (exn + 'r) \<Rightarrow> rat \<Rightarrow> exn + 'r" where
  "wait_for call timeout = (if timeout < fst call then Inl TimeoutError else snd call)"

text \<open>
  \<^verbatim>\<open>_try_orchestrator\<close>. The result \<open>None\<close> is Python's \<^verbatim>\<open>None\<close>: the orchestrator's
  answer was not good enough, or it failed and the fallback is enabled.
\<close>

definition try_orchestrator ::
  "JarvisConfig \<Rightarrow> 'a env \<Rightarrow> pystr \<Rightarrow> 'a dstate \<Rightarrow> (exn + pystr option) \<times> 'a dstate" where
  "try_orchestrator cfg e query s =
     (case retry_with_backoff (smart_tool_execution e query) (max_retries cfg) 1 s of
        (Inr orchestrator_result, s1) \<Rightarrow>
          if orchestrator_result \<noteq> [] \<and>
             int (length (strip orchestrator_result)) > orchestrator_threshold cfg
          then (Inr (Some (strip orchestrator_result)), s1)
          else (Inr None, s1)
      | (Inl x, s1) \<Rightarrow>
          if \<not> enable_fallback cfg then
            (Inl (JarvisError (str ''Orchestrator failed and fallback disabled: '' @ exn_str x)
                    (str ''ORCHESTRATOR_FAILED'') None), s1)
          else (Inr None, s1))"

text \<open>The \<^verbatim>\<open>try\<close> block of \<^verbatim>\<open>_try_langchain_agent\<close>, then the function with its handlers.\<close>

definition langchain_extract :: "agent_result \<Rightarrow> exn + pystr" where
  "langchain_extract result =
     (case (case result of WithOutput v \<Rightarrow> v | Plain t \<Rightarrow> PyStr t) of
        PyStr r \<Rightarrow>
          if r = [] \<or> strip r = [] then
            Inl (JarvisError (str ''LangChain agent returned empty response'')
                   (str ''EMPTY_RESPONSE'') None)
          else Inr (strip r)
      | PyFalsy \<Rightarrow>
          Inl (JarvisError (str ''LangChain agent returned empty response'')
                 (str ''EMPTY_RESPONSE'') None)
      | PyOther ty \<Rightarrow>
          Inl (attribute_error ty))"

definition langchain_body ::
  "JarvisConfig \<Rightarrow> 'a env \<Rightarrow> pystr \<Rightarrow> 'a dstate \<Rightarrow> (exn + pystr) \<times> 'a dstate" where
  "langchain_body cfg e query s =
     (case (case get_cached_agent e s of
              Some executor \<Rightarrow> (Inr executor, s)
            | None \<Rightarrow>
                (case create_langchain_agent e of
                   Inl x \<Rightarrow> (Inl x, s)
                 | Inr executor \<Rightarrow> (Inr executor, cache_agent executor e s))) of
        (Inl x, s1) \<Rightarrow> (Inl x, s1)
      | (Inr executor, s1) \<Rightarrow>
          (case wait_for (ainvoke e executor query) (timeout_seconds cfg) of
             Inl TimeoutError \<Rightarrow>
               (Inl (JarvisError
                       (str ''Query execution timed out after '' @
                        float_str e (timeout_seconds cfg) @ str ''s'')
                       (str ''EXECUTION_TIMEOUT'') None), s1)
           | Inl x \<Rightarrow> (Inl x, s1)
           | Inr result \<Rightarrow> (langchain_extract result, s1)))"

definition try_langchain_agent ::
  "JarvisConfig \<Rightarrow> 'a env \<Rightarrow> pystr \<Rightarrow> 'a dstate \<Rightarrow> (exn + pystr) \<times> 'a dstate" where
  "try_langchain_agent cfg e query s =
     (case langchain_body cfg e query s of
        (Inr r, s1) \<Rightarrow> (Inr r, s1)
      | (Inl (JarvisError msg code orig), s1) \<Rightarrow> (Inl (JarvisError msg code orig), s1)
      | (Inl x, s1) \<Rightarrow>
          (Inl (JarvisError (str ''LangChain agent execution failed: '' @ exn_str x)
                  (str ''LANGCHAIN_FAILED'') (Some x)), s1))"

text \<open>
  The \<^verbatim>\<open>try\<close> block of \<^verbatim>\<open>thinking_capability\<close>. \<^verbatim>\<open>performance_monitor\<close> only logs and
  re-raises, so it leaves no trace here. \<^verbatim>\<open>query.strip()\<close> on a value that is not a
  string would raise \<^verbatim>\<open>AttributeError\<close>.
\<close>

definition success_result :: "pystr \<Rightarrow> pystr \<Rightarrow> rat \<Rightarrow> dispatch_result" where
  "success_result r m t =
     \<lparr>success = True, response = Some r, method_used = Some m, error = None, error_code = None,
      execution_time = t\<rparr>"

definition failure_result :: "pystr \<Rightarrow> pystr \<Rightarrow> rat \<Rightarrow> dispatch_result" where
  "failure_result msg code t =
     \<lparr>success = False, response = None, method_used = None, error = Some msg,
      error_code = Some code, execution_time = t\<rparr>"

definition thinking_body ::
  "JarvisConfig \<Rightarrow> 'a env \<Rightarrow> pyval \<Rightarrow> 'a dstate \<Rightarrow> (exn + dispatch_result) \<times> 'a dstate" where
  "thinking_body cfg e query s =
     (case validate_query cfg query of
        Inl x \<Rightarrow> (Inl x, s)
      | Inr _ \<Rightarrow>
          (case query of
             PyStr q \<Rightarrow>
               (case try_orchestrator cfg e (strip q) s of
                  (Inl x, s1) \<Rightarrow> (Inl x, s1)
                | (Inr orchestrator_result, s1) \<Rightarrow>
                    if orchestrator_result \<noteq> None \<and> orchestrator_result \<noteq> Some [] then
                      (Inr (success_result (the orchestrator_result) (str ''orchestrator'')
                              (end_time e - start_time e)),
                       s1\<lparr>metrics := update_success (end_time e - start_time e)
                                        (str ''orchestrator'') (metrics s1)\<rparr>)
                    else if enable_fallback cfg then
                      (case try_langchain_agent cfg e (strip q) s1 of
                         (Inl x, s2) \<Rightarrow> (Inl x, s2)
                       | (Inr langchain_result, s2) \<Rightarrow>
                           (Inr (success_result langchain_result (str ''langchain'')
                                   (end_time e - start_time e)),
                            s2\<lparr>metrics := update_success (end_time e - start_time e)
                                             (str ''langchain'') (metrics s2)\<rparr>))
                    else
                      (Inl (JarvisError
                              (str ''No available execution method could handle the query'')
                              (str ''NO_METHOD_AVAILABLE'') None), s1))
           | PyFalsy \<Rightarrow> (Inl (attribute_error (str ''NoneType'')), s)
           | PyOther ty \<Rightarrow> (Inl (attribute_error ty), s)))"

text \<open>
  \<^verbatim>\<open>thinking_capability\<close>: the body under its two handlers, \<^verbatim>\<open>except JarvisError\<close> and
  \<^verbatim>\<open>except Exception\<close>. \<open>Inl\<close> in the result would be an exception that leaves the
  function.
\<close>

definition thinking_capability ::
  "JarvisConfig \<Rightarrow> 'a env \<Rightarrow> pyval \<Rightarrow> 'a dstate \<Rightarrow> (exn + dispatch_result) \<times> 'a dstate" where
  "thinking_capability cfg e query s =
     (case thinking_body cfg e query s of
        (Inr r, s1) \<Rightarrow> (Inr r, s1)
      | (Inl (JarvisError msg code orig), s1) \<Rightarrow>
          (Inr (failure_result msg code (end_time e - start_time e)),
           s1\<lparr>metrics := update_error (code @ str '': '' @ msg) (metrics s1)\<rparr>)
      | (Inl x, s1) \<Rightarrow>
          (Inr (failure_result
                  (str ''An unexpected error occurred while processing your request'')
                  (str ''UNEXPECTED_ERROR'') (end_time e - start_time e)),
           s1\<lparr>metrics := update_error
                            (str ''Unexpected error in thinking_capability: '' @ exn_str x)
                            (metrics s1)\<rparr>))"


text \<open>
  The module's globals when it has just been imported, and a small environment for
  concrete runs: an orchestrator that always yields \<open>orch\<close>, an agent that builds and
  whose call takes and yields \<open>agent_call\<close>, the clock reading \<open>t0\<close> until the call ends
  at \<open>t1\<close>.
\<close>

definition state_init :: "unit dstate" where
  "state_init =
     \<lparr>calls = 0, slept = [], metrics = metrics_init, cached_agent = None, last_cache_time = 0\<rparr>"

definition demo_env :: "(exn + pystr) \<Rightarrow> rat \<times> (exn + agent_result) \<Rightarrow> rat \<Rightarrow> rat \<Rightarrow> unit env" where
  "demo_env orch agent_call t0 t1 =
     \<lparr>smart_tool_execution = (\<lambda>q i. orch), build_agent = Inr (),
      ainvoke = (\<lambda>a q. agent_call), float_str = (\<lambda>r. str ''30.0''),
      start_time = t0, cache_check_time = t0, cache_store_time = t0, end_time = t1\<rparr>"

section \<open>tool\_orchestrator.py: text matching\<close>

text \<open>
  \<^verbatim>\<open>str.lower()\<close> on ASCII letters; every other code point is left as it is, which is
  what Python does for digits, punctuation and the Devanagari of the Hindi tokens
  (cased letters outside ASCII are beyond this model). \<open>str_in sub s\<close> is
  \<^verbatim>\<open>sub in s\<close>, and \<open>replace\<close> is \<^verbatim>\<open>str.replace\<close>: the occurrences of \<open>old\<close> from left
  to right, without overlap.
\<close>

definition lower :: "pystr \<Rightarrow> pystr" where
  "lower s = map (\<lambda>c. if 65 \<le> c \<and> c \<le> 90 then c + 32 else c) s"

fun str_in :: "pystr \<Rightarrow> pystr \<Rightarrow> bool" where
  "str_in sub [] = (sub = [])"
| "str_in sub (c # cs) = (prefix sub (c # cs) \<or> str_in sub cs)"

function replace :: "pystr \<Rightarrow> pystr \<Rightarrow> pystr \<Rightarrow> pystr" where
  "replace old new [] = (if old = [] then new else [])"
| "replace old new (c # cs) =
     (if old = [] then new @ c # replace old new cs
      else if prefix old (c # cs) then new @ replace old new (drop (length old) (c # cs))
      else c # replace old new cs)"
  by pat_completeness auto
termination
  by (relation "measure (\<lambda>(old, new, s). length s)") auto

text \<open>
  The regular expressions of the classifier use literal text, \<^verbatim>\<open>.*\<close> and \<^verbatim>\<open>|\<close> only. A
  pattern is the list of its alternatives, an alternative the list of its literal
  pieces, which \<^verbatim>\<open>.*\<close> separates. Matching returns the text left after the match.
  \<^verbatim>\<open>.*\<close> is greedy and does not cross a line feed (code point 10): \<open>any_star k\<close> tries
  the continuation \<open>k\<close> after the longest run first and backs off one character at a
  time. An alternation takes its first alternative that matches.
\<close>

type_synonym alt = "pystr list"
type_synonym pattern = "alt list"

fun any_star :: "(pystr \<Rightarrow> pystr option) \<Rightarrow> pystr \<Rightarrow> pystr option" where
  "any_star k [] = k []"
| "any_star k (c # cs) =
     (if c = 10 then k (c # cs)
      else (case any_star k cs of Some r \<Rightarrow> Some r | None \<Rightarrow> k (c # cs)))"

primrec match_alt :: "alt \<Rightarrow> pystr \<Rightarrow> pystr option" where
  "match_alt [] = (\<lambda>text. Some text)"
| "match_alt (lit # rest) =
     (\<lambda>text. if prefix lit text then
               (if rest = [] then Some (drop (length lit) text)
                else any_star (match_alt rest) (drop (length lit) text))
             else None)"

fun match_here :: "pattern \<Rightarrow> pystr \<Rightarrow> pystr option" where
  "match_here [] text = None"
| "match_here (a # alts) text =
     (case match_alt a text of Some r \<Rightarrow> Some r | None \<Rightarrow> match_here alts text)"

text \<open>\<^verbatim>\<open>re.search\<close>: is there a match at some position.\<close>

fun re_search :: "pattern \<Rightarrow> pystr \<Rightarrow> bool" where
  "re_search pat [] = (match_here pat [] \<noteq> None)"
| "re_search pat (c # cs) = (match_here pat (c # cs) \<noteq> None \<or> re_search pat cs)"

text \<open>
  \<^verbatim>\<open>len(re.findall(pattern, text))\<close>: the matches from left to right, each search
  starting where the last match ended (one character further after an empty match,
  which no pattern of the table produces).
\<close>

function findall_count :: "pattern \<Rightarrow> pystr \<Rightarrow> nat" where
  "findall_count pat [] = (if match_here pat [] \<noteq> None then 1 else 0)"
| "findall_count pat (c # cs) =
     (case match_here pat (c # cs) of
        None \<Rightarrow> findall_count pat cs
      | Some r \<Rightarrow>
          if length r < length (c # cs) then 1 + findall_count pat r
          else 1 + findall_count pat cs)"
  by pat_completeness auto
termination
  by (relation "measure (\<lambda>(pat, text). length text)") auto

section \<open>tool\_orchestrator.py: the intent classifier\<close>

text \<open>The table \<^verbatim>\<open>intent_patterns\<close>, in the order of the dictionary.\<close>

definition intent_patterns :: "(pystr \<times> pattern list) list" where
  "intent_patterns =
     [(str ''system_info'',
       [[[str ''system'', str ''info''], [str ''hardware''], [str ''specs''],
          [str ''performance''], [str ''cpu''], [str ''memory''], [str ''ram''],
          [str ''disk'']],
        [[str ''computer'', str ''details''], [str ''pc'', str ''info''],
          [str ''machine'', str ''specs'']],
        [[str ''how much'', str ''ram''], [str ''storage'', str ''space''],
          [str ''processor'', str ''speed'']]]),
      (str ''file_operations'',
       [[[str ''file''], [str ''folder''], [str ''directory''],
          [str ''create'', str ''file''], [str ''open'', str ''file''],
          [str ''delete'', str ''file'']],
        [[[2348, 2344, 2366, 2323]], [[2326, 2379, 2354, 2379]],
          [str ''delete '' @ [2325, 2352, 2379]], [[2347, 2364, 2366, 2311, 2354]],
          [[2347, 2379, 2354, 2381, 2337, 2352]]],
        [[str ''make'', str ''folder''], [str ''new'', str ''directory''],
          [str ''copy'', str ''file'']]]),
      (str ''code_development'',
       [[[str ''code''], [str ''program''], [str ''script''], [str ''function''],
          [str ''class''], [str ''app''], [str ''website''], [str ''api'']],
        [[str ''python''], [str ''javascript''], [str ''html''], [str ''css''],
          [str ''react''], [str ''flask''], [str ''fastapi''], [str ''node'']],
        [[str ''vs code''], [[2357, 2368, 2319, 2360] @ str '' '' @ [2325, 2379, 2337]],
          [[2325, 2379, 2337] @ str '' '' @ [2354, 2367, 2326, 2379]],
          [[2346, 2381, 2352, 2379, 2327, 2381, 2352, 2366, 2350] @ str '' '' @ [2348, 2344, 2366, 2323]]],
        [[str ''bug''], [str ''debug''], [str ''error''], [str ''fix'', str ''code''],
          [str ''analyze'', str ''code'']]]),
      (str ''web_search'',
       [[[str ''search''], [str ''google''], [str ''find'', str ''information''],
          [str ''look'', str ''up''], [str ''research'']],
        [[[2326, 2379, 2332, 2379]], [[2338, 2370, 2306, 2338, 2379]],
          [str ''information''], [[2332, 2366, 2344, 2325, 2366, 2352, 2368]],
          [str ''search '' @ [2325, 2352, 2379]]],
        [[str ''what'', str ''is''], [str ''how'', str ''to''],
          [str ''tell'', str ''me'', str ''about'']]]),
      (str ''weather'',
       [[[str ''weather''], [str ''temperature''], [str ''rain''], [str ''climate''],
          [[2350, 2380, 2360, 2350]], [[2348, 2366, 2352, 2367, 2358]],
          [[2340, 2366, 2346, 2350, 2366, 2344]]],
        [[str ''forecast''], [str ''humidity''], [str ''wind''], [str ''clouds''],
          [str ''sunny''], [str ''cloudy'']]]),
      (str ''automation'',
       [[[str ''automate''], [str ''control''], [str ''keyboard''], [str ''mouse''],
          [str ''click''], [str ''type''], [str ''press'']],
        [[str ''volume''], [str ''cursor''], [str ''scroll''], [str ''hotkey''],
          [str ''shortcut'']],
        [[str ''automation''], [str ''macro''], [str ''script'', str ''run'']]]),
      (str ''writing'',
       [[[str ''write''], [str ''type''], [str ''text''], [str ''document''],
          [str ''note''], [str ''letter''], [str ''email'']],
        [[[2354, 2367, 2326, 2379]],
          [[2335, 2366, 2311, 2346] @ str '' '' @ [2325, 2352, 2379]],
          [str ''text'', str ''input''], [str ''compose'']],
        [[str ''draft''], [str ''content''], [str ''article''], [str ''blog''],
          [str ''story'']]]),
      (str ''multimedia'',
       [[[str ''play'', str ''music''], [str ''video''], [str ''audio''], [str ''image''],
          [str ''photo''], [str ''picture'']],
        [[str ''media''], [str ''song''], [str ''movie''], [str ''gallery''],
          [str ''camera''], [str ''screenshot'']],
        [[str ''record''], [str ''capture''], [str ''stream'']]]),
      (str ''learning'',
       [[[str ''learn''], [str ''study''], [str ''tutorial''], [str ''course''],
          [str ''lesson''], [str ''teach''], [str ''explain'']],
        [[str ''education''], [str ''knowledge''], [str ''skill''], [str ''training''],
          [str ''practice'']],
        [[[2360, 2367, 2326, 2366, 2323]], [[2360, 2350, 2333, 2366, 2323]],
          [str ''tutorial''], [str ''guide'']]]),
      (str ''entertainment'',
       [[[str ''game''], [str ''fun''], [str ''joke''], [str ''story''], [str ''quiz''],
          [str ''puzzle''], [str ''music''], [str ''movie'']],
        [[str ''entertainment''], [str ''leisure''], [str ''hobby''], [str ''recreation'']],
        [[[2350, 2332, 2366]], [[2326, 2375, 2354]], [[2325, 2361, 2366, 2344, 2368]],
          [[2327, 2366, 2344, 2366]]]]),
      (str ''productivity'',
       [[[str ''schedule''], [str ''calendar''], [str ''reminder''], [str ''todo''],
          [str ''task''], [str ''meeting''], [str ''appointment'']],
        [[str ''organize''], [str ''plan''], [str ''manage''], [str ''productivity''],
          [str ''efficiency'']],
        [[[2325, 2366, 2350]], [[2325, 2366, 2352, 2381, 2351]], [str ''meeting''],
          [str ''reminder'']]]),
      (str ''communication'',
       [[[str ''email''], [str ''message''], [str ''send''], [str ''call''], [str ''chat''],
          [str ''contact''], [str ''whatsapp''], [str ''telegram'']],
        [[str ''communicate''], [str ''reply''], [str ''respond''], [str ''forward''],
          [str ''share'']],
        [[[2360, 2306, 2342, 2375, 2358]], [[2350, 2376, 2360, 2375, 2332]],
          [[2349, 2375, 2332, 2379]], [str ''call '' @ [2325, 2352, 2379]]]])]"

text \<open>The table \<^verbatim>\<open>hinglish_mappings\<close>, Hindi token to English word.\<close>

definition hinglish_mappings :: "(pystr \<times> pystr) list" where
  "hinglish_mappings =
     [([2326, 2379, 2354, 2379], str ''open''),
      ([2348, 2306, 2342] @ str '' '' @ [2325, 2352, 2379], str ''close''),
      ([2348, 2344, 2366, 2323], str ''create''),
      ([2354, 2367, 2326, 2379], str ''write''),
      ([2349, 2375, 2332, 2379], str ''send''),
      ([2338, 2370, 2306, 2338, 2379], str ''search''),
      ([2330, 2354, 2366, 2323], str ''play''),
      ([2352, 2369, 2325, 2379], str ''stop''),
      ([2360, 2367, 2360, 2381, 2335, 2350], str ''system''),
      ([2347, 2364, 2366, 2311, 2354], str ''file''),
      ([2347, 2379, 2354, 2381, 2337, 2352], str ''folder''),
      ([2325, 2379, 2337], str ''code''),
      ([2346, 2381, 2352, 2379, 2327, 2381, 2352, 2366, 2350], str ''program'')]"

text \<open>
  \<^verbatim>\<open>classify_intent\<close>, loop by loop: the normalisation, the score of an intent (the
  largest strength of a pattern that matches), the dictionary of the intents with a
  positive score, the boost of the intents whose name occurs in the text, the sort.
  \<^verbatim>\<open>sorted(..., reverse=True)\<close> is stable, as is \<open>sort_key\<close> on the negated score.
\<close>

definition normalize_query :: "pystr \<Rightarrow> pystr" where
  "normalize_query query = foldl (\<lambda>q (hindi, english). replace hindi english q) (lower query)
                       hinglish_mappings"

definition pattern_strength :: "pattern \<Rightarrow> pystr \<Rightarrow> rat" where
  "pattern_strength pat text = min (of_nat (findall_count pat text) * (3 / 10)) 1"

fun max_score_loop :: "pattern list \<Rightarrow> pystr \<Rightarrow> rat \<Rightarrow> rat" where
  "max_score_loop [] text max_score = max_score"
| "max_score_loop (pat # pats) text max_score =
     (if re_search pat text
      then max_score_loop pats text (max max_score (pattern_strength pat text))
      else max_score_loop pats text max_score)"

fun intent_scores_loop ::
  "(pystr \<times> pattern list) list \<Rightarrow> pystr \<Rightarrow> (pystr \<times> rat) list" where
  "intent_scores_loop [] text = []"
| "intent_scores_loop ((intent, pats) # rest) text =
     (if max_score_loop pats text 0 > 0
      then (intent, max_score_loop pats text 0) # intent_scores_loop rest text
      else intent_scores_loop rest text)"

definition boost :: "pystr \<Rightarrow> pystr \<times> rat \<Rightarrow> pystr \<times> rat" where
  "boost text entry =
     (if str_in (fst entry) text then (fst entry, min (snd entry + 2 / 10) 1) else entry)"

definition classify_with ::
  "(pystr \<times> pattern list) list \<Rightarrow> pystr \<Rightarrow> (pystr \<times> rat) list" where
  "classify_with table query =
     sort_key (\<lambda>entry. - snd entry)
       (map (boost (normalize_query query)) (intent_scores_loop table (normalize_query query)))"

definition classify_intent :: "pystr \<Rightarrow> (pystr \<times> rat) list" where
  "classify_intent query = classify_with intent_patterns query"

section \<open>tool\_orchestrator.py: the registry and the orchestrator\<close>

datatype ToolCategory =
    SYSTEM_INFO | FILE_MANAGEMENT | CODE_DEVELOPMENT | WEB_SEARCH | COMMUNICATION
  | AUTOMATION | MULTIMEDIA | PRODUCTIVITY | LEARNING | ENTERTAINMENT | UTILITIES

fun category_value :: "ToolCategory \<Rightarrow> pystr" where
  "category_value SYSTEM_INFO = str ''system_info''"
| "category_value FILE_MANAGEMENT = str ''file_management''"
| "category_value CODE_DEVELOPMENT = str ''code_development''"
| "category_value WEB_SEARCH = str ''web_search''"
| "category_value COMMUNICATION = str ''communication''"
| "category_value AUTOMATION = str ''automation''"
| "category_value MULTIMEDIA = str ''multimedia''"
| "category_value PRODUCTIVITY = str ''productivity''"
| "category_value LEARNING = str ''learning''"
| "category_value ENTERTAINMENT = str ''entertainment''"
| "category_value UTILITIES = str ''utilities''"

text \<open>
  \<^verbatim>\<open>ToolMetadata\<close>; \<open>keyword_list\<close> is its field \<^verbatim>\<open>keywords\<close>. The optional lists
  \<^verbatim>\<open>prerequisites\<close> and \<^verbatim>\<open>conflicts\<close> default to
  \<^verbatim>\<open>None\<close>, which every use treats like the empty list.
\<close>

record ToolMetadata =
  name :: pystr
  category :: ToolCategory
  description :: pystr
  keyword_list :: "pystr list"
  priority :: int
  prerequisites :: "pystr list"
  conflicts :: "pystr list"
  min_confidence :: rat
  async_capable :: bool
  estimated_time :: rat

text \<open>
  An entry of \<^verbatim>\<open>_initialize_tool_registry\<close>: the key is the tool's name; conflicts,
  confidence floor and async flag take their defaults.
\<close>

definition tool ::
  "pystr \<Rightarrow> ToolCategory \<Rightarrow> pystr \<Rightarrow> pystr list \<Rightarrow> int \<Rightarrow> pystr list \<Rightarrow> rat
     \<Rightarrow> pystr \<times> ToolMetadata" where
  "tool n c d ks p pre t =
     (n, \<lparr>name = n, category = c, description = d, keyword_list = ks, priority = p,
          prerequisites = pre, conflicts = [], min_confidence = 7 / 10,
          async_capable = True, estimated_time = t\<rparr>)"

definition tool_registry_init :: "(pystr \<times> ToolMetadata) list" where
  "tool_registry_init =
     [tool (str ''get_system_info'') SYSTEM_INFO
         (str ''Get comprehensive system information including CPU, memory, disk usage'')
         [str ''system'', str ''info'', str ''hardware'', str ''specs'',
            str ''performance'', str ''cpu'', str ''memory'', str ''ram'']
         8 [] 2,
      tool (str ''get_running_processes'') SYSTEM_INFO
         (str ''Get list of running processes and resource usage'')
         [str ''processes'', str ''running'', str ''tasks'', str ''cpu'', str ''memory'',
            str ''performance'']
         7 [] 3,
      tool (str ''get_network_info'') SYSTEM_INFO
         (str ''Get network information and connectivity status'')
         [str ''network'', str ''ip'', str ''internet'', str ''connection'', str ''wifi'']
         6 [] 2,
      tool (str ''cleanup_system'') UTILITIES
         (str ''Clean temporary files and optimize system performance'')
         [str ''clean'', str ''cleanup'', str ''optimize'', str ''temp'', str ''space'',
            str ''storage'']
         5 [] 10,
      tool (str ''open_app'') FILE_MANAGEMENT
         (str ''Open desktop applications'')
         [str ''open'', str ''launch'', str ''start'', str ''app'', str ''application'',
            str ''program'']
         9 [] 3,
      tool (str ''close_app'') FILE_MANAGEMENT
         (str ''Close running applications'')
         [str ''close'', str ''quit'', str ''exit'', str ''stop'', str ''end'',
            str ''terminate'']
         8 [] 1,
      tool (str ''folder_file'') FILE_MANAGEMENT
         (str ''Handle folder and file operations like create, rename, delete'')
         [str ''folder'', str ''file'', str ''create'', str ''delete'', str ''rename'',
            str ''manage'']
         8 [] 2,
      tool (str ''Play_file'') MULTIMEDIA
         (str ''Open and play files like videos, documents, images'')
         [str ''play'', str ''open'', str ''file'', str ''video'', str ''music'',
            str ''document'', str ''image'']
         7 [] 2,
      tool (str ''open_vscode_sandbox'') CODE_DEVELOPMENT
         (str ''Open VS Code with safe sandbox environment for coding'')
         [str ''vscode'', str ''code'', str ''editor'', str ''ide'', str ''programming'',
            str ''development'']
         9 [] 5,
      tool (str ''create_code_file'') CODE_DEVELOPMENT
         (str ''Create new code files with templates'')
         [str ''create'', str ''file'', str ''code'', str ''python'', str ''javascript'',
            str ''html'', str ''new'']
         8 [str ''open_vscode_sandbox''] 2,
      tool (str ''write_code'') CODE_DEVELOPMENT
         (str ''Write code with proper formatting and syntax highlighting'')
         [str ''write'', str ''code'', str ''type'', str ''program'', str ''script'',
            str ''function'']
         8 [str ''open_vscode_sandbox''] 10,
      tool (str ''analyze_code'') CODE_DEVELOPMENT
         (str ''Analyze code for errors, style issues, and improvements'')
         [str ''analyze'', str ''check'', str ''review'', str ''debug'', str ''error'',
            str ''bug'']
         7 [] 3,
      tool (str ''generate_function'') CODE_DEVELOPMENT
         (str ''Generate function templates with documentation'')
         [str ''function'', str ''generate'', str ''template'', str ''create'',
            str ''method'']
         7 [] 3,
      tool (str ''generate_class'') CODE_DEVELOPMENT
         (str ''Generate class templates with methods'')
         [str ''class'', str ''generate'', str ''template'', str ''create'',
            str ''object'']
         7 [] 4,
      tool (str ''create_web_app'') CODE_DEVELOPMENT
         (str ''Generate complete web application templates'')
         [str ''web'', str ''app'', str ''website'', str ''api'', str ''server'',
            str ''flask'', str ''fastapi'', str ''express'']
         6 [] 8,
      tool (str ''google_search'') WEB_SEARCH
         (str ''Search Google for information with speech-friendly results'')
         [str ''search'', str ''google'', str ''find'', str ''information'',
            str ''research'', str ''lookup'']
         9 [] 3,
      tool (str ''get_weather'') WEB_SEARCH
         (str ''Get current weather information for any city'')
         [str ''weather'', str ''temperature'', str ''rain'', str ''climate'',
            str ''forecast'']
         8 [] 2,
      tool (str ''get_current_datetime'') UTILITIES
         (str ''Get current date and time'')
         [str ''time'', str ''date'', str ''clock'', str ''current'', str ''now'']
         9 [] (1 / 10),
      tool (str ''move_cursor_tool'') AUTOMATION
         (str ''Move mouse cursor in specified direction'')
         [str ''cursor'', str ''mouse'', str ''move'', str ''pointer'']
         6 [] (1 / 2),
      tool (str ''mouse_click_tool'') AUTOMATION
         (str ''Perform mouse clicks (left, right, double)'')
         [str ''click'', str ''mouse'', str ''press'', str ''select'']
         7 [] (1 / 2),
      tool (str ''type_text_tool'') AUTOMATION
         (str ''Type text safely with proper character handling'')
         [str ''type'', str ''text'', str ''write'', str ''input'', str ''keyboard'']
         8 [] 5,
      tool (str ''press_key_tool'') AUTOMATION
         (str ''Press individual keyboard keys'')
         [str ''key'', str ''press'', str ''keyboard'', str ''button'']
         7 [] (1 / 2),
      tool (str ''control_volume_tool'') AUTOMATION
         (str ''Control system volume (up, down, mute)'')
         [str ''volume'', str ''sound'', str ''audio'', str ''mute'', str ''speaker'']
         6 [] (1 / 2),
      tool (str ''safe_text_input'') PRODUCTIVITY
         (str ''Safely input text with proper formatting and stop control'')
         [str ''text'', str ''write'', str ''input'', str ''type'', str ''safe'']
         8 [] 8,
      tool (str ''stop_all_writing'') UTILITIES
         (str ''Emergency stop for all writing operations'')
         [str ''stop'', str ''halt'', str ''cancel'', str ''emergency'', str ''abort'']
         10 [] (1 / 10)]"

text \<open>
  \<^verbatim>\<open>analyze_query\<close>. The registry is a dictionary in insertion order, here an
  association list; \<open>intents\<close> is what the classifier returned.
\<close>

fun keyword_loop :: "pystr list \<Rightarrow> pystr \<Rightarrow> rat \<Rightarrow> rat" where
  "keyword_loop [] query_lower tool_score = tool_score"
| "keyword_loop (keyword # rest) query_lower tool_score =
     (if str_in keyword query_lower
      then keyword_loop rest query_lower (tool_score + 3 / 10)
      else keyword_loop rest query_lower tool_score)"

definition tool_score :: "(pystr \<times> rat) list \<Rightarrow> pystr \<Rightarrow> ToolMetadata \<Rightarrow> rat" where
  "tool_score intents query metadata =
     (let s1 = keyword_loop (keyword_list metadata) (lower query) 0;
          s2 = (case map_of intents (category_value (category metadata)) of
                  Some v \<Rightarrow> s1 + v * (7 / 10)
                | None \<Rightarrow> s1)
      in s2 * (of_int (priority metadata) / 10))"

fun matching_loop ::
  "(pystr \<times> ToolMetadata) list \<Rightarrow> (pystr \<times> rat) list \<Rightarrow> pystr
     \<Rightarrow> (pystr \<times> ToolMetadata \<times> rat) list" where
  "matching_loop [] intents query = []"
| "matching_loop ((tool_name, metadata) # rest) intents query =
     (if tool_score intents query metadata \<ge> min_confidence metadata
      then (tool_name, metadata, tool_score intents query metadata)
             # matching_loop rest intents query
      else matching_loop rest intents query)"

text \<open>The local list \<^verbatim>\<open>matching_tools\<close> after the sort, before the slice \<^verbatim>\<open>[:5]\<close>.\<close>

definition matching_sorted ::
  "(pystr \<times> ToolMetadata) list \<Rightarrow> (pystr \<times> rat) list \<Rightarrow> pystr
     \<Rightarrow> (pystr \<times> ToolMetadata \<times> rat) list" where
  "matching_sorted registry intents query =
     sort_key (\<lambda>x. - snd (snd x)) (matching_loop registry intents query)"

record analysis =
  a_query :: pystr
  a_intents :: "(pystr \<times> rat) list"
  matching_tools :: "(pystr \<times> ToolMetadata \<times> rat) list"
  primary_intent :: pystr
  confidence :: rat

definition analyze_with ::
  "(pystr \<times> ToolMetadata) list \<Rightarrow> (pystr \<times> rat) list \<Rightarrow> pystr \<Rightarrow> analysis" where
  "analyze_with registry intents query =
     \<lparr>a_query = query,
      a_intents = intents,
      matching_tools = take 5 (matching_sorted registry intents query),
      primary_intent = (case intents of [] \<Rightarrow> str ''general'' | x # _ \<Rightarrow> fst x),
      confidence = (case intents of [] \<Rightarrow> 1 / 2 | x # _ \<Rightarrow> snd x)\<rparr>"

definition analyze_query :: "(pystr \<times> ToolMetadata) list \<Rightarrow> pystr \<Rightarrow> analysis" where
  "analyze_query registry query = analyze_with registry (classify_intent query) query"



text \<open>\<^verbatim>\<open>select_tools\<close>: the loop with its two accumulators, left at the third tool.\<close>

fun select_loop ::
  "(pystr \<times> ToolMetadata \<times> rat) list \<Rightarrow> (pystr \<times> ToolMetadata) list \<Rightarrow> ToolCategory set
     \<Rightarrow> (pystr \<times> ToolMetadata) list" where
  "select_loop [] selected_tools used_categories = selected_tools"
| "select_loop ((tool_name, metadata, score) # rest) selected_tools used_categories =
     (if conflicts metadata \<noteq> [] \<and>
         list_ex (\<lambda>conflict. conflict \<in> set (map fst selected_tools)) (conflicts metadata)
      then select_loop rest selected_tools used_categories
      else if category metadata \<noteq> UTILITIES \<and> category metadata \<in> used_categories
      then select_loop rest selected_tools used_categories
      else
        (let used = (if category metadata \<noteq> UTILITIES
                     then insert (category metadata) used_categories else used_categories);
             selected = selected_tools @ [(tool_name, metadata)]
         in if length selected \<ge> 3 then selected else select_loop rest selected used))"

definition select_tools :: "analysis \<Rightarrow> (pystr \<times> ToolMetadata) list" where
  "select_tools a = select_loop (matching_tools a) [] {}"

text \<open>
  \<^verbatim>\<open>create_execution_plan\<close>: the first loop collects the prerequisites that are not
  among the selected names and sums the estimated times; the second inserts each
  collected prerequisite that the registry knows at the front of the plan.
\<close>

record plan =
  tools :: "(pystr \<times> ToolMetadata) list"
  plan_estimated_time :: rat
  requires_prerequisites :: bool
  has_conflicts :: bool
  execution_order :: "pystr list"





text \<open>
  \<^verbatim>\<open>execute_plan\<close>. The tools act on the world outside, of any type \<open>'w\<close>; \<open>run_tool\<close> is
  the \<^verbatim>\<open>try\<close> block of \<^verbatim>\<open>_execute_tool\<close> (the choice of the imported function by the
  tool's name and its call), \<open>loop_time\<close> the reading of the event loop's clock. The
  calls of the activity display return nothing and leave no trace here.
\<close>

record 'w ostate =
  world :: 'w
  tool_usage_history :: "(pystr \<times> pystr \<times> rat) list"

record exec_results =
  results_success :: bool
  tool_results :: "(pystr \<times> pyval) list"
  results_execution_time :: rat
  errors :: "pystr list"

definition execute_tool ::
  "(pystr \<Rightarrow> pystr \<Rightarrow> 'w \<Rightarrow> (exn + pyval) \<times> 'w) \<Rightarrow> pystr \<Rightarrow> pystr \<Rightarrow> 'w
     \<Rightarrow> (exn + pyval) \<times> 'w" where
  "execute_tool run_tool tool_name query w =
     (case run_tool tool_name query w of
        (Inr v, w1) \<Rightarrow> (Inr v, w1)
      | (Inl x, w1) \<Rightarrow>
          (Inl (OtherError (str ''Failed to execute '' @ tool_name @ str '': '' @ exn_str x)),
           w1))"

text \<open>\<^verbatim>\<open>results["tool_results"][tool_name] = tool_result\<close> on a dictionary in insertion order.\<close>

fun dict_set :: "'k \<Rightarrow> 'v \<Rightarrow> ('k \<times> 'v) list \<Rightarrow> ('k \<times> 'v) list" where
  "dict_set k v [] = [(k, v)]"
| "dict_set k v (p # ps) = (if fst p = k then (k, v) # ps else p # dict_set k v ps)"

fun execute_loop ::
  "(pystr \<Rightarrow> pystr \<Rightarrow> 'w \<Rightarrow> (exn + pyval) \<times> 'w) \<Rightarrow> ('w \<Rightarrow> rat) \<Rightarrow> pystr
     \<Rightarrow> (pystr \<times> ToolMetadata) list \<Rightarrow> exec_results \<times> 'w ostate \<Rightarrow> exec_results \<times> 'w ostate" where
  "execute_loop run_tool loop_time query [] acc = acc"
| "execute_loop run_tool loop_time query ((tool_name, metadata) # rest) (results, s) =
     (case execute_tool run_tool tool_name query (world s) of
        (Inr tool_result, w1) \<Rightarrow>
          execute_loop run_tool loop_time query rest
            (results\<lparr>tool_results := dict_set tool_name tool_result (tool_results results)\<rparr>,
             s\<lparr>world := w1,
               tool_usage_history := tool_usage_history s @ [(tool_name, query, loop_time w1)]\<rparr>)
      | (Inl x, w1) \<Rightarrow>
          execute_loop run_tool loop_time query rest
            (results\<lparr>errors := errors results @
                        [str ''Error executing '' @ tool_name @ str '': '' @ exn_str x],
                     results_success := False\<rparr>,
             s\<lparr>world := w1\<rparr>))"

definition execute_plan ::
  "(pystr \<Rightarrow> pystr \<Rightarrow> 'w \<Rightarrow> (exn + pyval) \<times> 'w) \<Rightarrow> ('w \<Rightarrow> rat) \<Rightarrow> plan \<Rightarrow> pystr
     \<Rightarrow> 'w ostate \<Rightarrow> exec_results \<times> 'w ostate" where
  "execute_plan run_tool loop_time p query s =
     (case execute_loop run_tool loop_time query (tools p)
             (\<lparr>results_success = True, tool_results = [], results_execution_time = 0,
               errors = []\<rparr>, s) of
        (results, s1) \<Rightarrow>
          (results\<lparr>results_execution_time := loop_time (world s1) - loop_time (world s)\<rparr>, s1))"

section \<open>Notions used to state the properties\<close>

text \<open>
  Two selected tools are compatible when they share a category only if it is the
  utilities category and the later one does not declare the earlier one as a conflict;
  \<open>used_of\<close> is the set \<^verbatim>\<open>used_categories\<close> that belongs to a list of selected tools.
\<close>

definition compatible :: "pystr \<times> ToolMetadata \<Rightarrow> pystr \<times> ToolMetadata \<Rightarrow> bool" where
  "compatible x y \<longleftrightarrow>
     (category (snd x) = category (snd y) \<longrightarrow> category (snd x) = UTILITIES) \<and>
     fst x \<notin> set (conflicts (snd y))"

definition used_of :: "(pystr \<times> ToolMetadata) list \<Rightarrow> ToolCategory set" where
  "used_of sel = {c. c \<noteq> UTILITIES \<and> c \<in> category ` snd ` set sel}"





text \<open>
  Running every tool of a list in order, each in the world the one before left,
  whatever the outcomes: the outcome of each tool and the final world. The lines
  \<^verbatim>\<open>execute_plan\<close> records for the outcomes that are exceptions.
\<close>

fun run_tools ::
  "(pystr \<Rightarrow> pystr \<Rightarrow> 'w \<Rightarrow> (exn + pyval) \<times> 'w) \<Rightarrow> pystr \<Rightarrow> (pystr \<times> ToolMetadata) list
     \<Rightarrow> 'w \<Rightarrow> (pystr \<times> (exn + pyval)) list \<times> 'w" where
  "run_tools run_tool query [] w = ([], w)"
| "run_tools run_tool query ((tool_name, metadata) # rest) w =
     (case execute_tool run_tool tool_name query w of
        (out, w1) \<Rightarrow>
          (case run_tools run_tool query rest w1 of
             (outs, w2) \<Rightarrow> ((tool_name, out) # outs, w2)))"

fun error_lines :: "(pystr \<times> (exn + pyval)) list \<Rightarrow> pystr list" where
  "error_lines [] = []"
| "error_lines ((tool_name, Inl x) # outs) =
     (str ''Error executing '' @ tool_name @ str '': '' @ exn_str x) # error_lines outs"
| "error_lines ((tool_name, Inr v) # outs) = error_lines outs"

text \<open>
  Concrete inputs: a ranked list of six tools (the second shares the category of the
  first, the third declares the first as a conflict, the fourth and fifth are
  utilities); a plan of three tools and a tool runner that logs each call in the
  world and fails for one name.
\<close>

definition demo_matching :: "(pystr \<times> ToolMetadata \<times> rat) list" where
  "demo_matching =
     [(str ''google_search'', snd (tool (str ''google_search'') WEB_SEARCH [] [] 9 [] 3), 9 / 10),
      (str ''get_weather'', snd (tool (str ''get_weather'') WEB_SEARCH [] [] 8 [] 2), 17 / 20),
      (str ''mirror_search'',
       (snd (tool (str ''mirror_search'') LEARNING [] [] 8 [] 2))
         \<lparr>conflicts := [str ''google_search'']\<rparr>, 4 / 5),
      (str ''get_current_datetime'',
       snd (tool (str ''get_current_datetime'') UTILITIES [] [] 9 [] (1 / 10)), 4 / 5),
      (str ''stop_all_writing'',
       snd (tool (str ''stop_all_writing'') UTILITIES [] [] 10 [] (1 / 10)), 3 / 4),
      (str ''open_app'', snd (tool (str ''open_app'') FILE_MANAGEMENT [] [] 9 [] 3), 7 / 10)]"

definition demo_analysis :: analysis where
  "demo_analysis =
     \<lparr>a_query = str ''search'', a_intents = [], matching_tools = demo_matching,
      primary_intent = str ''general'', confidence = 1 / 2\<rparr>"

definition trace_tool :: "pystr \<Rightarrow> pystr \<Rightarrow> pystr \<Rightarrow> pystr list \<Rightarrow> (exn + pyval) \<times> pystr list" where
  "trace_tool failing tool_name query w =
     (if tool_name = failing then (Inl (OtherError (str ''boom'')), w @ [tool_name])
      else (Inr (PyStr tool_name), w @ [tool_name]))"

definition demo_plan :: plan where
  "demo_plan =
     \<lparr>tools = [tool (str ''a'') UTILITIES [] [] 5 [] 1, tool (str ''b'') UTILITIES [] [] 5 [] 1,
               tool (str ''c'') UTILITIES [] [] 5 [] 1],
      plan_estimated_time = 3, requires_prerequisites = False, has_conflicts = False,
      execution_order = [str ''a'', str ''b'', str ''c'']\<rparr>"





section \<open>Theorems\<close>

subsection \<open>Metrics counters\<close>

lemma metrics_invariant_init: "metrics_invariant metrics_init"
  by (simp add: metrics_invariant_def metrics_init_def)

lemma metrics_invariant_step:
  "metrics_invariant m \<Longrightarrow> metrics_invariant (apply_metrics_op m x)"
  by (cases x)
     (simp_all add: metrics_invariant_def update_success_def update_error_def
        reset_performance_metrics_def metrics_init_def Let_def)

lemma metrics_invariant_foldl:
  "metrics_invariant m \<Longrightarrow> metrics_invariant (foldl apply_metrics_op m ops)"
  by (induction ops arbitrary: m) (simp_all add: metrics_invariant_step)

text \<open>
  Claim C10. Starting from the all-zero metrics, after any sequence of
  \<open>update_success\<close>, \<open>update_error\<close> and \<open>reset\<close> the total number of queries is the
  number of successful ones plus the number of errors, and the number of successful
  ones is the number answered by the orchestrator plus the number answered by the
  LangChain agent.
\<close>

theorem metrics_counters_consistent:
  "total_queries (run_metrics_ops ops) =
     successful_queries (run_metrics_ops ops) + error_count (run_metrics_ops ops) \<and>
   successful_queries (run_metrics_ops ops) =
     orchestrator_queries (run_metrics_ops ops) + langchain_queries (run_metrics_ops ops)"
  using metrics_invariant_foldl [OF metrics_invariant_init, of ops]
  by (simp add: metrics_invariant_def run_metrics_ops_def)

subsection \<open>Retry with backoff\<close>








subsection \<open>Validation and the dispatcher\<close>


lemma validate_query_cases:
  "validate_query cfg query = Inr () \<or>
   (\<exists>msg code. validate_query cfg query = Inl (JarvisError msg code None))"
  by (simp add: validate_query_def split: pyval.splits)

lemma validate_query_Inr_str:
  "validate_query cfg query = Inr u \<Longrightarrow> \<exists>q. query = PyStr q \<and> q \<noteq> []"
  by (auto simp: validate_query_def split: pyval.splits if_splits)

lemma thinking_capability_validation_failure:
  "validate_query cfg query = Inl (JarvisError msg code orig) \<Longrightarrow>
   thinking_capability cfg e query s =
     (Inr (failure_result msg code (end_time e - start_time e)),
      s\<lparr>metrics := update_error (code @ str '': '' @ msg) (metrics s)\<rparr>)"
  by (simp add: thinking_capability_def thinking_body_def)








text \<open>
  Claim C5, amended. Validation fails with \<open>INVALID_QUERY\<close> when the query is empty or
  not a string. For a non-empty string the length that counts is the one after
  \<^verbatim>\<open>strip()\<close>: validation fails with \<open>QUERY_TOO_SHORT\<close> when it is strictly below the
  configured minimum, otherwise with \<open>QUERY_TOO_LONG\<close> when it is strictly above the
  configured maximum, and passes otherwise. At the bounds: stripped length exactly the
  minimum passes and exactly the maximum passes (when minimum \<open>\<le>\<close> maximum), minimum
  minus one fails with \<open>QUERY_TOO_SHORT\<close>, maximum plus one fails with \<open>QUERY_TOO_LONG\<close>
  (when it is not below the minimum). A validation failure is returned at once: the
  result carries its message and code, the orchestrator is not awaited and nothing
  sleeps.
\<close>

theorem validate_query_stripped_bounds:
  "(query = PyStr [] \<or> (\<forall>t. query \<noteq> PyStr t) \<longrightarrow>
      (\<exists>msg. validate_query cfg query = Inl (JarvisError msg (str ''INVALID_QUERY'') None))) \<and>
   (q \<noteq> [] \<and> int (length (strip q)) < min_query_length cfg \<longrightarrow>
      (\<exists>msg. validate_query cfg (PyStr q) = Inl (JarvisError msg (str ''QUERY_TOO_SHORT'') None))) \<and>
   (q \<noteq> [] \<and> min_query_length cfg \<le> int (length (strip q)) \<and>
    max_query_length cfg < int (length (strip q)) \<longrightarrow>
      (\<exists>msg. validate_query cfg (PyStr q) = Inl (JarvisError msg (str ''QUERY_TOO_LONG'') None))) \<and>
   (q \<noteq> [] \<and> min_query_length cfg \<le> int (length (strip q)) \<and>
    int (length (strip q)) \<le> max_query_length cfg \<longrightarrow>
      validate_query cfg (PyStr q) = Inr ()) \<and>
   (q \<noteq> [] \<and> int (length (strip q)) = min_query_length cfg \<and>
    min_query_length cfg \<le> max_query_length cfg \<longrightarrow>
      validate_query cfg (PyStr q) = Inr ()) \<and>
   (q \<noteq> [] \<and> int (length (strip q)) = min_query_length cfg - 1 \<longrightarrow>
      (\<exists>msg. validate_query cfg (PyStr q) = Inl (JarvisError msg (str ''QUERY_TOO_SHORT'') None))) \<and>
   (q \<noteq> [] \<and> int (length (strip q)) = max_query_length cfg \<and>
    min_query_length cfg \<le> max_query_length cfg \<longrightarrow>
      validate_query cfg (PyStr q) = Inr ()) \<and>
   (q \<noteq> [] \<and> int (length (strip q)) = max_query_length cfg + 1 \<and>
    min_query_length cfg \<le> max_query_length cfg + 1 \<longrightarrow>
      (\<exists>msg. validate_query cfg (PyStr q) = Inl (JarvisError msg (str ''QUERY_TOO_LONG'') None))) \<and>
   (validate_query cfg query = Inl (JarvisError msg code orig) \<longrightarrow>
      thinking_capability cfg e query s =
        (Inr (failure_result msg code (end_time e - start_time e)),
         s\<lparr>metrics := update_error (code @ str '': '' @ msg) (metrics s)\<rparr>) \<and>
      calls (snd (thinking_capability cfg e query s)) = calls s \<and>
      slept (snd (thinking_capability cfg e query s)) = slept s)"
proof (intro conjI impI)
  assume "query = PyStr [] \<or> (\<forall>t. query \<noteq> PyStr t)"
  then show "\<exists>msg. validate_query cfg query = Inl (JarvisError msg (str ''INVALID_QUERY'') None)"
    by (cases query) (auto simp: validate_query_def)
next
  assume h: "validate_query cfg query = Inl (JarvisError msg code orig)"
  note eq = thinking_capability_validation_failure [OF h, of e s]
  show "thinking_capability cfg e query s =
        (Inr (failure_result msg code (end_time e - start_time e)),
         s\<lparr>metrics := update_error (code @ str '': '' @ msg) (metrics s)\<rparr>)"
    by (rule eq)
  show "calls (snd (thinking_capability cfg e query s)) = calls s"
    by (simp add: eq)
  show "slept (snd (thinking_capability cfg e query s)) = slept s"
    by (simp add: eq)
qed (simp_all add: validate_query_def)

theorem validate_query_stripped_bounds_witness:
  "validate_query config_default (PyStr []) =
     Inl (JarvisError (str ''Query must be a non-empty string'') (str ''INVALID_QUERY'') None) \<and>
   validate_query (config_default\<lparr>min_query_length := 3\<rparr>) (PyStr (str '' ab ''))
     = Inl (JarvisError (str ''Query too short (minimum 3 characters)'') (str ''QUERY_TOO_SHORT'') None) \<and>
   validate_query (config_default\<lparr>min_query_length := 3\<rparr>) (PyStr (str '' abc '')) = Inr () \<and>
   validate_query (config_default\<lparr>max_query_length := 3\<rparr>) (PyStr (str '' abc '')) = Inr () \<and>
   validate_query (config_default\<lparr>max_query_length := 3\<rparr>) (PyStr (str ''abcd''))
     = Inl (JarvisError (str ''Query too long (maximum 3 characters)'') (str ''QUERY_TOO_LONG'') None) \<and>
   thinking_capability config_default (demo_env (Inr []) (0, Inr (Plain [])) 5 7) (PyStr []) state_init =
     (Inr (failure_result (str ''Query must be a non-empty string'') (str ''INVALID_QUERY'') 2),
      state_init\<lparr>metrics :=
        update_error (str ''INVALID_QUERY: Query must be a non-empty string'') metrics_init\<rparr>)"
proof -
  let ?e = "demo_env (Inr []) (0, Inr (Plain [])) 5 7"
  have v: "validate_query config_default (PyStr []) =
     Inl (JarvisError (str ''Query must be a non-empty string'') (str ''INVALID_QUERY'') None)"
    by (simp add: validate_query_def)
  have len: "strip (str '' ab '') = str ''ab''" "strip (str '' abc '') = str ''abc''"
    "strip (str ''abcd'') = str ''abcd''"
    by (simp_all add: strip_def is_space_def)
  note t1 = validate_query_stripped_bounds
    [of "PyStr []" config_default "str '' ab ''" "str ''Query must be a non-empty string''"
        "str ''INVALID_QUERY''" None ?e state_init]
  note t2 = validate_query_stripped_bounds
    [of "PyStr []" "config_default\<lparr>min_query_length := 3\<rparr>" "str '' ab ''" "[]" "[]" None ?e state_init]
  note t3 = validate_query_stripped_bounds
    [of "PyStr []" "config_default\<lparr>min_query_length := 3\<rparr>" "str '' abc ''" "[]" "[]" None ?e state_init]
  note t4 = validate_query_stripped_bounds
    [of "PyStr []" "config_default\<lparr>max_query_length := 3\<rparr>" "str '' abc ''" "[]" "[]" None ?e state_init]
  note t5 = validate_query_stripped_bounds
    [of "PyStr []" "config_default\<lparr>max_query_length := 3\<rparr>" "str ''abcd''" "[]" "[]" None ?e state_init]
  have a: "thinking_capability config_default ?e (PyStr []) state_init =
     (Inr (failure_result (str ''Query must be a non-empty string'') (str ''INVALID_QUERY'') 2),
      state_init\<lparr>metrics :=
        update_error (str ''INVALID_QUERY: Query must be a non-empty string'') metrics_init\<rparr>)"
    using t1 v by (simp add: demo_env_def state_init_def)
  have b: "validate_query (config_default\<lparr>min_query_length := 3\<rparr>) (PyStr (str '' ab ''))
     = Inl (JarvisError (str ''Query too short (minimum 3 characters)'') (str ''QUERY_TOO_SHORT'') None)"
    using t2 len by (simp add: config_default_def validate_query_def str_int_def str_nat.simps)
  have c: "validate_query (config_default\<lparr>min_query_length := 3\<rparr>) (PyStr (str '' abc '')) = Inr ()"
    using t3 len by (simp add: config_default_def)
  have d: "validate_query (config_default\<lparr>max_query_length := 3\<rparr>) (PyStr (str '' abc '')) = Inr ()"
    using t4 len by (simp add: config_default_def)
  have f: "validate_query (config_default\<lparr>max_query_length := 3\<rparr>) (PyStr (str ''abcd''))
     = Inl (JarvisError (str ''Query too long (maximum 3 characters)'') (str ''QUERY_TOO_LONG'') None)"
    using t5 len by (simp add: config_default_def validate_query_def str_int_def str_nat.simps)
  from v a b c d f show ?thesis by simp
qed

text \<open>
  The claim as stated, on the raw length, fails: with the default configuration the
  query of one space has length exactly \<open>min_query_length\<close> and is rejected.
\<close>

theorem validate_query_raw_length_counterexample:
  "int (length (str '' '')) = min_query_length config_default \<and>
   validate_query config_default (PyStr (str '' '')) =
     Inl (JarvisError (str ''Query too short (minimum 1 characters)'') (str ''QUERY_TOO_SHORT'') None)"
  by (simp add: validate_query_def config_default_def strip_def is_space_def str_int_def
        str_nat.simps)






subsection \<open>The running average\<close>

lemma demo_first:
  "thinking_capability config_default (demo_env (Inr []) (0, Inr (Plain [])) 0 1) (PyStr []) state_init =
     (Inr (failure_result (str ''Query must be a non-empty string'') (str ''INVALID_QUERY'') 1),
      state_init\<lparr>metrics :=
        update_error (str ''INVALID_QUERY: Query must be a non-empty string'') metrics_init\<rparr>)"
  by (simp add: thinking_capability_def thinking_body_def validate_query_def demo_env_def
        state_init_def)

lemma demo_second:
  "thinking_capability config_default
     (demo_env (Inr (str ''The time is 10:30'')) (0, Inr (Plain [])) 10 14) (PyStr (str ''hello''))
     (state_init\<lparr>metrics := m\<rparr>) =
     (Inr (success_result (str ''The time is 10:30'') (str ''orchestrator'') 4),
      state_init\<lparr>calls := 1, metrics := update_success 4 (str ''orchestrator'') m\<rparr>)"
  by (simp add: thinking_capability_def thinking_body_def validate_query_def demo_env_def
        state_init_def try_orchestrator_def retry_with_backoff_def config_default_def
        upto.simps strip_def is_space_def)

text \<open>
  Claim C9, at a failing input. A query that fails validation (execution time 1)
  followed by one the orchestrator answers (execution time 4): both are counted, yet
  the running average is 2, which is neither the mean 5/2 of the two response times
  nor the mean 4 of the successful one: \<open>update_error\<close> adds to the divisor only.
\<close>

theorem average_response_time_not_mean:
  "(case thinking_capability config_default (demo_env (Inr []) (0, Inr (Plain [])) 0 1)
           (PyStr []) state_init of
      (r1, s1) \<Rightarrow>
        (case thinking_capability config_default
                (demo_env (Inr (str ''The time is 10:30'')) (0, Inr (Plain [])) 10 14)
                (PyStr (str ''hello'')) s1 of
           (r2, s2) \<Rightarrow>
             map_sum id execution_time r1 = Inr 1 \<and> map_sum id execution_time r2 = Inr 4 \<and>
             map_sum id success r1 = Inr False \<and> map_sum id success r2 = Inr True \<and>
             total_queries (metrics s2) = 2 \<and>
             average_response_time (metrics s2) = 2 \<and>
             average_response_time (metrics s2) \<noteq> (1 + 4) / 2 \<and>
             average_response_time (metrics s2) \<noteq> 4))"
  by (simp only: demo_first prod.case demo_second)
     (simp add: update_success_def update_error_def metrics_init_def success_result_def
        failure_result_def Let_def)

subsection \<open>Tool selection\<close>

lemma used_of_iff:
  "c \<in> used_of sel \<longleftrightarrow> c \<noteq> UTILITIES \<and> (\<exists>x\<in>set sel. category (snd x) = c)"
  unfolding used_of_def by (simp add: image_iff) metis

lemma used_of_snoc:
  "used_of (sel @ [(n, m)]) =
     (if category m \<noteq> UTILITIES then insert (category m) (used_of sel) else used_of sel)"
  by (auto simp: used_of_def)

lemma compatible_snoc:
  assumes "sorted_wrt compatible sel"
    and "\<not> (conflicts m \<noteq> [] \<and> list_ex (\<lambda>c. c \<in> set (map fst sel)) (conflicts m))"
    and "\<not> (category m \<noteq> UTILITIES \<and> category m \<in> used_of sel)"
  shows "sorted_wrt compatible (sel @ [(n, m)])"
proof -
  have "compatible x (n, m)" if "x \<in> set sel" for x
  proof -
    from assms(2) that have "fst x \<notin> set (conflicts m)"
      by (auto simp: list_ex_iff)
    moreover have "category (snd x) = category m \<longrightarrow> category (snd x) = UTILITIES"
    proof
      assume eq: "category (snd x) = category m"
      show "category (snd x) = UTILITIES"
      proof (rule ccontr)
        assume ne: "category (snd x) \<noteq> UTILITIES"
        from that eq have "\<exists>y\<in>set sel. category (snd y) = category m" ..
        with ne eq have "category m \<in> used_of sel" by (simp add: used_of_iff)
        with assms(3) ne eq show False by simp
      qed
    qed
    ultimately show ?thesis by (simp add: compatible_def)
  qed
  with assms(1) show ?thesis by (simp add: sorted_wrt_append)
qed

lemma select_loop_compatible:
  "sorted_wrt compatible sel \<Longrightarrow> length sel < 3 \<Longrightarrow>
   sorted_wrt compatible (select_loop ms sel (used_of sel)) \<and>
   length (select_loop ms sel (used_of sel)) \<le> 3"
proof (induction ms arbitrary: sel)
  case Nil
  then show ?case by simp
next
  case (Cons x ms)
  obtain n m sc where x: "x = (n, m, sc)" by (cases x)
  show ?case
  proof (cases "conflicts m \<noteq> [] \<and> list_ex (\<lambda>c. c \<in> set (map fst sel)) (conflicts m)")
    case True
    with Cons x show ?thesis by simp
  next
    case nc: False
    show ?thesis
    proof (cases "category m \<noteq> UTILITIES \<and> category m \<in> used_of sel")
      case True
      with nc Cons x show ?thesis by simp
    next
      case nu: False
      have ok: "sorted_wrt compatible (sel @ [(n, m)])"
        using Cons.prems(1) nc nu by (rule compatible_snoc)
      show ?thesis
      proof (cases "3 \<le> length (sel @ [(n, m)])")
        case True
        with Cons.prems(2) have "length (sel @ [(n, m)]) \<le> 3" by simp
        with True nc nu ok x show ?thesis by (auto simp: Let_def)
      next
        case False
        then have "length (sel @ [(n, m)]) < 3" by simp
        from Cons.IH [OF ok this] False nc nu x show ?thesis
          by (auto simp: Let_def used_of_snoc)
      qed
    qed
  qed
qed

lemma select_loop_subseq:
  "\<exists>zs. select_loop ms sel used = sel @ zs \<and> subseq zs (map (\<lambda>(n, m, sc). (n, m)) ms)"
proof (induction ms arbitrary: sel used)
  case Nil
  then show ?case by simp
next
  case (Cons x ms)
  obtain n m sc where x: "x = (n, m, sc)" by (cases x)
  let ?used = "if category m \<noteq> UTILITIES then insert (category m) used else used"
  from Cons.IH [of sel used] obtain zs where
    skip: "select_loop ms sel used = sel @ zs" "subseq zs (map (\<lambda>(n, m, sc). (n, m)) ms)"
    by blast
  from Cons.IH [of "sel @ [(n, m)]" ?used] obtain ys where
    keep: "select_loop ms (sel @ [(n, m)]) ?used = (sel @ [(n, m)]) @ ys"
      "subseq ys (map (\<lambda>(n, m, sc). (n, m)) ms)"
    by blast
  have a: "subseq zs (map (\<lambda>(n, m, sc). (n, m)) (x # ms))"
    using skip(2) by (auto simp: x)
  have b: "subseq ((n, m) # ys) (map (\<lambda>(n, m, sc). (n, m)) (x # ms))"
    using keep(2) by (simp add: x)
  have c: "subseq [(n, m)] (map (\<lambda>(n, m, sc). (n, m)) (x # ms))"
    by (simp add: x)
  show ?case
    using skip(1) keep(1) a b c unfolding x
    by (auto simp: Let_def simp del: subseq_Cons2_iff)
qed

lemma matching_sorted_desc:
  "sorted_wrt (\<lambda>x y. snd (snd x) \<ge> snd (snd y)) (matching_sorted registry intents query)"
proof -
  have "sorted (map (\<lambda>x. - snd (snd x)) (matching_sorted registry intents query))"
    by (simp add: matching_sorted_def)
  then show ?thesis by (simp add: sorted_map)
qed

lemma analyze_with_sorted:
  "sorted_wrt (\<lambda>x y. snd (snd x) \<ge> snd (snd y)) (matching_tools (analyze_with registry intents query))"
  using matching_sorted_desc [of registry intents query]
  by (simp add: analyze_with_def sorted_wrt_take)

text \<open>
  Claim C3. The list \<open>select_tools\<close> returns has at most 3 tools; no two of them share
  a category other than utilities; no two of them each declare the other in their
  conflicts; it is a subsequence of the ranked list of the analysis, so the tools are
  considered in the order of that list, which \<open>analyze_query\<close> leaves sorted by
  non-increasing score.
\<close>

theorem select_tools_invariants:
  "length (select_tools a) \<le> 3 \<and>
   (\<forall>i j. i < j \<and> j < length (select_tools a) \<longrightarrow>
      (category (snd (select_tools a ! i)) = category (snd (select_tools a ! j)) \<longrightarrow>
         category (snd (select_tools a ! i)) = UTILITIES) \<and>
      \<not> (fst (select_tools a ! i) \<in> set (conflicts (snd (select_tools a ! j))) \<and>
         fst (select_tools a ! j) \<in> set (conflicts (snd (select_tools a ! i))))) \<and>
   subseq (select_tools a) (map (\<lambda>(n, m, sc). (n, m)) (matching_tools a)) \<and>
   sorted_wrt (\<lambda>x y. snd (snd x) \<ge> snd (snd y)) (matching_tools (analyze_query registry query))"
proof -
  have e: "used_of [] = {}" by (simp add: used_of_def)
  have inv: "sorted_wrt compatible (select_tools a) \<and> length (select_tools a) \<le> 3"
    using select_loop_compatible [of "[]" "matching_tools a"]
    by (simp add: select_tools_def e)
  have pair: "compatible (select_tools a ! i) (select_tools a ! j)"
    if "i < j" "j < length (select_tools a)" for i j
    using inv that by (simp add: sorted_wrt_iff_nth_less)
  have sub: "subseq (select_tools a) (map (\<lambda>(n, m, sc). (n, m)) (matching_tools a))"
    using select_loop_subseq [of "matching_tools a" "[]" "{}"]
    by (auto simp: select_tools_def)
  have srt: "sorted_wrt (\<lambda>x y. snd (snd x) \<ge> snd (snd y))
               (matching_tools (analyze_query registry query))"
    by (simp add: analyze_query_def analyze_with_sorted)
  from inv pair sub srt show ?thesis
    by (auto simp: compatible_def)
qed

lemma demo_select:
  "map fst (select_tools demo_analysis) =
     [str ''google_search'', str ''get_current_datetime'', str ''stop_all_writing'']"
  by (simp add: select_tools_def demo_analysis_def demo_matching_def tool_def)

theorem select_tools_invariants_witness:
  "map fst (select_tools demo_analysis) =
     [str ''google_search'', str ''get_current_datetime'', str ''stop_all_writing''] \<and>
   length (select_tools demo_analysis) \<le> 3 \<and>
   \<not> (fst (select_tools demo_analysis ! 1) \<in> set (conflicts (snd (select_tools demo_analysis ! 2))) \<and>
      fst (select_tools demo_analysis ! 2) \<in> set (conflicts (snd (select_tools demo_analysis ! 1)))) \<and>
   (category (snd (select_tools demo_analysis ! 1)) = category (snd (select_tools demo_analysis ! 2)) \<and>
    category (snd (select_tools demo_analysis ! 1)) = UTILITIES \<or>
    category (snd (select_tools demo_analysis ! 1)) \<noteq> category (snd (select_tools demo_analysis ! 2)))"
proof -
  have len: "length (select_tools demo_analysis) = 3"
    using arg_cong [OF demo_select, of length] by simp
  note t = select_tools_invariants [of demo_analysis tool_registry_init "[]"]
  from t have a: "length (select_tools demo_analysis) \<le> 3" by (rule conjunct1)
  from t have "\<forall>i j. i < j \<and> j < length (select_tools demo_analysis) \<longrightarrow>
      (category (snd (select_tools demo_analysis ! i)) = category (snd (select_tools demo_analysis ! j)) \<longrightarrow>
         category (snd (select_tools demo_analysis ! i)) = UTILITIES) \<and>
      \<not> (fst (select_tools demo_analysis ! i) \<in> set (conflicts (snd (select_tools demo_analysis ! j))) \<and>
         fst (select_tools demo_analysis ! j) \<in> set (conflicts (snd (select_tools demo_analysis ! i))))"
    by (rule conjunct1 [OF conjunct2])
  then have b: "(category (snd (select_tools demo_analysis ! 1)) = category (snd (select_tools demo_analysis ! 2)) \<longrightarrow>
         category (snd (select_tools demo_analysis ! 1)) = UTILITIES) \<and>
      \<not> (fst (select_tools demo_analysis ! 1) \<in> set (conflicts (snd (select_tools demo_analysis ! 2))) \<and>
         fst (select_tools demo_analysis ! 2) \<in> set (conflicts (snd (select_tools demo_analysis ! 1))))"
    using len by (elim allE [of _ 1] allE [of _ 2]) simp
  from demo_select a b show ?thesis by blast
qed

subsection \<open>The execution plan\<close>

















subsection \<open>Running the plan\<close>

lemma run_tools_names:
  "map fst (fst (run_tools run_tool query ts w)) = map fst ts"
proof (induction ts arbitrary: w)
  case Nil
  then show ?case by simp
next
  case (Cons t ts)
  obtain n m where t: "t = (n, m)" by (cases t)
  obtain out w1 where ex: "execute_tool run_tool n query w = (out, w1)"
    by (cases "execute_tool run_tool n query w")
  obtain outs w2 where rt: "run_tools run_tool query ts w1 = (outs, w2)"
    by (cases "run_tools run_tool query ts w1")
  from Cons.IH [of w1] show ?case by (simp add: t ex rt)
qed

lemma execute_loop_eq:
  "execute_loop run_tool loop_time query ts (results, s) = (results1, s1) \<Longrightarrow>
   world s1 = snd (run_tools run_tool query ts (world s)) \<and>
   errors results1 = errors results @ error_lines (fst (run_tools run_tool query ts (world s))) \<and>
   results_success results1 =
     (results_success results \<and> error_lines (fst (run_tools run_tool query ts (world s))) = [])"
proof (induction ts arbitrary: results s)
  case Nil
  then show ?case by simp
next
  case (Cons t ts)
  obtain n m where t: "t = (n, m)" by (cases t)
  obtain out w1 where ex: "execute_tool run_tool n query (world s) = (out, w1)"
    by (cases "execute_tool run_tool n query (world s)")
  obtain outs w2 where rt: "run_tools run_tool query ts w1 = (outs, w2)"
    by (cases "run_tools run_tool query ts w1")
  show ?case
  proof (cases out)
    case (Inr v)
    let ?r = "results\<lparr>tool_results := dict_set n v (tool_results results)\<rparr>"
    let ?s = "s\<lparr>world := w1,
               tool_usage_history := tool_usage_history s @ [(n, query, loop_time w1)]\<rparr>"
    from Cons.prems t ex Inr
    have "execute_loop run_tool loop_time query ts (?r, ?s) = (results1, s1)" by simp
    from Cons.IH [OF this] t ex Inr rt show ?thesis by simp
  next
    case (Inl x)
    let ?r = "results\<lparr>errors := errors results @
                        [str ''Error executing '' @ n @ str '': '' @ exn_str x],
                     results_success := False\<rparr>"
    let ?s = "s\<lparr>world := w1\<rparr>"
    from Cons.prems t ex Inl
    have "execute_loop run_tool loop_time query ts (?r, ?s) = (results1, s1)" by simp
    from Cons.IH [OF this] t ex Inl rt show ?thesis by simp
  qed
qed

text \<open>
  Claim C4. \<open>execute_plan\<close> runs the tools of the plan one after the other in plan
  order, each in the world its predecessor left, and every tool of the plan is run
  whether or not earlier ones raised. For each tool that raises, the error text is
  appended to the error list, and the success flag is true exactly when no tool raised.
\<close>

theorem execute_plan_sequential:
  "execute_plan run_tool loop_time p query s = (results, s1) \<Longrightarrow>
   world s1 = snd (run_tools run_tool query (tools p) (world s)) \<and>
   map fst (fst (run_tools run_tool query (tools p) (world s))) = map fst (tools p) \<and>
   errors results = error_lines (fst (run_tools run_tool query (tools p) (world s))) \<and>
   results_success results =
     (\<forall>out\<in>set (fst (run_tools run_tool query (tools p) (world s))). \<not> isl (snd out))"
proof -
  assume h: "execute_plan run_tool loop_time p query s = (results, s1)"
  let ?init = "\<lparr>results_success = True, tool_results = [], results_execution_time = 0,
               errors = []\<rparr>"
  obtain r0 where
    loop: "execute_loop run_tool loop_time query (tools p) (?init, s) = (r0, s1)"
    and r: "results = r0\<lparr>results_execution_time := loop_time (world s1) - loop_time (world s)\<rparr>"
    using h by (auto simp: execute_plan_def split: prod.splits)
  have el: "(error_lines outs = []) = (\<forall>out\<in>set outs. \<not> isl (snd out))"
    for outs :: "(pystr \<times> (exn + pyval)) list"
    by (induction outs rule: error_lines.induct) simp_all
  from execute_loop_eq [OF loop] r show ?thesis
    by (simp add: run_tools_names el)
qed

lemma demo_execute:
  "execute_plan (trace_tool (str ''b'')) (\<lambda>w. of_nat (length w)) demo_plan (str ''go'')
     \<lparr>world = [], tool_usage_history = []\<rparr> =
   (\<lparr>results_success = False,
     tool_results = [(str ''a'', PyStr (str ''a'')), (str ''c'', PyStr (str ''c''))],
     results_execution_time = 3,
     errors = [str ''Error executing b: Failed to execute b: boom'']\<rparr>,
    \<lparr>world = [str ''a'', str ''b'', str ''c''],
     tool_usage_history = [(str ''a'', str ''go'', 1), (str ''c'', str ''go'', 3)]\<rparr>)"
  by (simp add: execute_plan_def demo_plan_def tool_def execute_tool_def trace_tool_def)

theorem execute_plan_sequential_witness:
  "world (snd (execute_plan (trace_tool (str ''b'')) (\<lambda>w. of_nat (length w)) demo_plan (str ''go'')
     \<lparr>world = [], tool_usage_history = []\<rparr>)) = [str ''a'', str ''b'', str ''c''] \<and>
   errors (fst (execute_plan (trace_tool (str ''b'')) (\<lambda>w. of_nat (length w)) demo_plan (str ''go'')
     \<lparr>world = [], tool_usage_history = []\<rparr>)) = [str ''Error executing b: Failed to execute b: boom''] \<and>
   \<not> results_success (fst (execute_plan (trace_tool (str ''b'')) (\<lambda>w. of_nat (length w)) demo_plan
     (str ''go'') \<lparr>world = [], tool_usage_history = []\<rparr>))"
proof -
  have rt: "run_tools (trace_tool (str ''b'')) (str ''go'') (tools demo_plan) [] =
     ([(str ''a'', Inr (PyStr (str ''a''))),
       (str ''b'', Inl (OtherError (str ''Failed to execute b: boom''))),
       (str ''c'', Inr (PyStr (str ''c'')))], [str ''a'', str ''b'', str ''c''])"
    by (simp add: demo_plan_def tool_def execute_tool_def trace_tool_def)
  from execute_plan_sequential [OF demo_execute] show ?thesis
    unfolding demo_execute by (simp add: rt)
qed

subsection \<open>The intent classifier\<close>


lemma pattern_strength_nonneg: "0 \<le> pattern_strength pat tx"
  by (simp add: pattern_strength_def)





















subsection \<open>Scoring the tools\<close>















end
